theory Spec2Isabelle
  imports Complex_Main "HOL-Library.Char_ord" "HOL-Library.List_Lexorder"
    "HOL-Library.Product_Lexorder" "HOL-Library.Multiset"
begin

section \<open>Data model of core.py\<close>

text \<open>
  The module keeps three dictionaries, \<open>vocab\<close>, \<open>progress\<close> and \<open>stats\<close>, loaded from
  JSON files. Every function below takes the dictionaries it reads and returns the ones it
  writes.

  Modelling conventions.
  \<^item> A Python \<open>float\<close> is idealised as an exact rational number (\<open>rat\<close>): \<open>2.5\<close> is
    \<open>5/2\<close>, \<open>1.3\<close> is \<open>13/10\<close>; rounding errors of IEEE arithmetic are not modelled.
  \<^item> A calendar date (\<open>datetime.date\<close>, or its \<open>%Y-%m-%d\<close> string) is its day number, an
    \<open>int\<close>; adding \<open>timedelta(days=n)\<close> is adding \<open>n\<close>, the difference \<open>.days\<close> is
    subtraction. The range limit of \<open>datetime.date\<close> (years 1 to 9999) and malformed date
    strings are not modelled. \<open>datetime.now()\<close> is the parameter \<open>now\<close>.
  \<^item> A vocabulary entry is a JSON object whose keys may be absent (the unit tests build
    entries with three keys only), so every field is an \<open>option\<close>, and
    \<open>data.get(key, default)\<close> is \<open>get_or (key data) default\<close>.
  \<^item> \<open>vocab\<close> is a Python \<open>dict\<close>, which iterates in insertion order: an association list
    whose keys are distinct.
  \<^item> A string is a \<open>char list\<close> of bytes; \<open>lower\<close> and \<open>strip\<close> are modelled on ASCII.
\<close>

datatype py_error = ZeroDivisionError

record review =
  date :: int
  correct :: "bool option"

record entry =
  sentence :: "string option"
  note_text :: "string option"
  box :: "int option"
  times_reviewed :: "int option"
  times_correct :: "int option"
  ease :: "rat option"
  history :: "review list option"
  last_reviewed :: "int option"
  next_review :: "int option"
  interval :: "int option"

type_synonym vocab = "(string \<times> entry) list"

record progress =
  current_streak :: int
  longest_streak :: int
  last_study_date :: "int option"
  achievements :: "string list"
  total_reviews :: int
  studied_today :: int
  xp :: int

record stats =
  words_added :: int
  words_removed :: int
  quiz_attempts :: int
  quiz_correct :: int

text \<open>\<open>d.get(key, default)\<close> on a key that may be absent.\<close>

definition get_or :: "'a option \<Rightarrow> 'a \<Rightarrow> 'a" where
  "get_or v d = (case v of None \<Rightarrow> d | Some x \<Rightarrow> x)"

text \<open>\<open>vocab[word] = data\<close> for a key that is present: the value is replaced in place.\<close>

fun dict_set :: "vocab \<Rightarrow> string \<Rightarrow> entry \<Rightarrow> vocab" where
  "dict_set [] k v = [(k, v)]"
| "dict_set ((k', v') # rest) k v =
     (if k' = k then (k, v) # rest else (k', v') # dict_set rest k v)"

text \<open>\<open>del vocab[w]\<close>.\<close>

fun dict_del :: "vocab \<Rightarrow> string \<Rightarrow> vocab" where
  "dict_del [] k = []"
| "dict_del ((k', v') # rest) k =
     (if k' = k then rest else (k', v') # dict_del rest k)"

text \<open>
  Python 3's \<open>round(x)\<close> on a float: the nearest integer, a tie going to the even one.
\<close>

definition py_round :: "rat \<Rightarrow> int" where
  "py_round x =
     (let f = \<lfloor>x\<rfloor>; d = x - of_int f
      in if d < 1/2 then f
         else if 1/2 < d then f + 1
         else if even f then f else f + 1)"

section \<open>Spaced repetition: \<open>schedule_next_review\<close>\<close>


section \<open>Word management: \<open>remove_word\<close>, \<open>edit_word\<close>\<close>

text \<open>\<open>str.lower()\<close> on ASCII letters; other bytes are kept.\<close>

definition lower_char :: "char \<Rightarrow> char" where
  "lower_char c =
     (let n = (of_char c :: nat)
      in if 65 \<le> n \<and> n \<le> 90 then char_of (n + 32) else c)"

definition lower :: "string \<Rightarrow> string" where
  "lower s = map lower_char s"

text \<open>
  \<open>str.strip()\<close>: leading and trailing whitespace removed. The ASCII characters for
  which \<open>str.isspace()\<close> holds are 9 to 13 and 28 to 32.
\<close>

definition is_space :: "char \<Rightarrow> bool" where
  "is_space c =
     (let n = (of_char c :: nat)
      in (9 \<le> n \<and> n \<le> 13) \<or> (28 \<le> n \<and> n \<le> 32))"

definition strip :: "string \<Rightarrow> string" where
  "strip s = rev (dropWhile is_space (rev (dropWhile is_space s)))"

text \<open>
  \<open>remove_word\<close> returns a \<open>bool\<close> and writes \<open>vocab\<close> and \<open>stats\<close>. The body of
  its \<open>for\<close> loop leaves the function in its first iteration on both paths: on a match
  it deletes the key and \<open>break\<close>s to the final \<open>return False\<close>; otherwise it runs
  the three statements that follow the \<open>if\<close> inside the loop, the last of which is
  \<open>return True\<close>. So only the first key of the dictionary is ever compared.
\<close>

definition remove_word :: "string \<Rightarrow> vocab \<Rightarrow> stats \<Rightarrow> bool \<times> vocab \<times> stats" where
  "remove_word word vocab st =
     (case map fst vocab of
        [] \<Rightarrow> (False, vocab, st)
      | w # _ \<Rightarrow>
          if lower w = lower word
          then (False, dict_del vocab w, st)
          else (True, vocab, st\<lparr>words_removed := words_removed st + 1\<rparr>))"

definition edit_word :: "string \<Rightarrow> string \<Rightarrow> string \<Rightarrow> vocab \<Rightarrow> bool \<times> vocab" where
  "edit_word word new_sentence new_note vocab =
     (case map_of vocab word of
        Some data \<Rightarrow>
          (True, dict_set vocab word
             (data\<lparr>sentence := Some (strip new_sentence),
                   note_text := Some (strip new_note)\<rparr>))
      | None \<Rightarrow> (False, vocab))"

section \<open>Study sessions: \<open>build_study_plan\<close>\<close>

text \<open>\<open>xs[-n:]\<close> for a positive \<open>n\<close>: the last \<open>n\<close> elements, or all of a shorter list.\<close>

definition py_last_n :: "nat \<Rightarrow> 'a list \<Rightarrow> 'a list" where
  "py_last_n n xs = drop (length xs - n) xs"

text \<open>\<open>xs[:t]\<close>: a negative \<open>t\<close> counts from the end.\<close>

definition py_slice_to :: "int \<Rightarrow> 'a list \<Rightarrow> 'a list" where
  "py_slice_to t xs =
     (if 0 \<le> t then take (nat t) xs else take (length xs - nat (- t)) xs)"

text \<open>
  The body of the \<open>for\<close> loop of \<open>build_study_plan\<close> for one entry. The float division
  \<open>3.5 / ease\<close> raises \<open>ZeroDivisionError\<close> when \<open>ease\<close> is zero; \<open>correct / reviewed\<close>
  is guarded by \<open>reviewed > 0\<close>.
\<close>

definition priority :: "int \<Rightarrow> entry \<Rightarrow> py_error + rat" where
  "priority today data =
     (let next_rev = get_or (next_review data) today;
          overdue_days = max 0 (today - next_rev);
          overdue_factor = 1 + of_int overdue_days * (15/100);
          ease0 = get_or (ease data) (5/2)
      in if ease0 = 0 then Inl ZeroDivisionError
         else
           (let difficulty_factor = (7/2) / ease0;
                reviewed = get_or (times_reviewed data) 0;
                correct0 = get_or (times_correct data) 0;
                accuracy = (if 0 < reviewed then of_int correct0 / of_int reviewed else 0);
                accuracy_factor = 1 + (1 - accuracy) * (3/2);
                new_word_factor = (if reviewed = 0 then 18/10 else 1);
                hist = get_or (history data) [];
                recent = py_last_n 5 hist;
                recent_errors = length (filter (\<lambda>h. \<not> get_or (correct h) True) recent);
                error_boost = 1 + of_nat recent_errors * (3/10)
            in Inr (overdue_factor * difficulty_factor * accuracy_factor
                      * new_word_factor * error_boost)))"

text \<open>The loop over \<open>vocab.items()\<close>, appending \<open>(priority, word)\<close>; an exception ends it.\<close>

fun score_words :: "int \<Rightarrow> vocab \<Rightarrow> (rat \<times> string) list \<Rightarrow> py_error + (rat \<times> string) list" where
  "score_words today [] scored_words = Inr scored_words"
| "score_words today ((word, data) # rest) scored_words =
     (case priority today data of
        Inl e \<Rightarrow> Inl e
      | Inr p \<Rightarrow> score_words today rest (scored_words @ [(p, word)]))"

text \<open>
  \<open>scored_words.sort(reverse=True)\<close> sorts the tuples in descending order, tuples being
  compared lexicographically: by priority, then by word (strings compare by code point,
  which on UTF-8 bytes is the byte order). With \<open>reverse=True\<close> elements that compare
  equal keep their order, and equal tuples are indistinguishable, so the result is the
  reversed ascending sort.
\<close>

definition sort_reverse :: "(rat \<times> string) list \<Rightarrow> (rat \<times> string) list" where
  "sort_reverse xs = rev (sort xs)"

definition build_study_plan :: "int \<Rightarrow> int \<Rightarrow> vocab \<Rightarrow> py_error + string list" where
  "build_study_plan today target vocab =
     (case score_words today vocab [] of
        Inl e \<Rightarrow> Inl e
      | Inr scored_words \<Rightarrow>
          Inr (map snd (py_slice_to target (sort_reverse scored_words))))"

section \<open>Progress: \<open>update_streak\<close>, \<open>check_achievements\<close>\<close>

definition update_streak :: "int \<Rightarrow> progress \<Rightarrow> progress" where
  "update_streak today p =
     (case last_study_date p of
        Some last_date \<Rightarrow>
          if today = last_date then p
          else
            (let p1 = (if today = last_date + 1
                       then p\<lparr>current_streak := current_streak p + 1\<rparr>
                       else p\<lparr>current_streak := 1\<rparr>);
                 p2 = (if longest_streak p1 < current_streak p1
                       then p1\<lparr>longest_streak := current_streak p1\<rparr> else p1)
             in p2\<lparr>studied_today := 0, last_study_date := Some today\<rparr>)
      | None \<Rightarrow>
          (let p1 = p\<lparr>current_streak := 1\<rparr>;
               p2 = (if longest_streak p1 < current_streak p1
                     then p1\<lparr>longest_streak := current_streak p1\<rparr> else p1)
           in p2\<lparr>studied_today := 0, last_study_date := Some today\<rparr>))"

text \<open>The table \<open>achievements_to_check\<close>: identifier, condition, message.\<close>

definition achievements_to_check :: "progress \<Rightarrow> vocab \<Rightarrow> (string \<times> bool \<times> string) list" where
  "achievements_to_check p vocab =
     (let xp0 = xp p;
          streak = current_streak p;
          reviewed = total_reviews p;
          total_words = int (length vocab)
      in [(''XP_100'', 100 \<le> xp0, ''Earned 100 XP''),
          (''XP_500'', 500 \<le> xp0, ''Earned 500 XP''),
          (''XP_1000'', 1000 \<le> xp0, ''Earned 1000 XP''),
          (''Streak_3'', 3 \<le> streak, ''3-day study streak''),
          (''Streak_7'', 7 \<le> streak, ''7-day study streak''),
          (''Streak_30'', 30 \<le> streak, ''30-day study streak''),
          (''Reviews_100'', 100 \<le> reviewed, ''100 reviews completed''),
          (''Reviews_500'', 500 \<le> reviewed, ''500 reviews completed''),
          (''Words_50'', 50 \<le> total_words, ''Added 50 words'')])"

text \<open>
  The loop over the table: the state is the list \<open>progress["achievements"]\<close> and the list
  \<open>new_achievements\<close>; the membership test reads the list as the loop has left it.
\<close>

fun check_loop ::
  "(string \<times> bool \<times> string) list \<Rightarrow> string list \<Rightarrow> string list \<Rightarrow> string list \<times> string list" where
  "check_loop [] unlocked new_achievements = (unlocked, new_achievements)"
| "check_loop ((achievement_id, condition, message) # rest) unlocked new_achievements =
     (if condition \<and> achievement_id \<notin> set unlocked
      then check_loop rest (unlocked @ [achievement_id]) (new_achievements @ [message])
      else check_loop rest unlocked new_achievements)"

definition check_achievements :: "progress \<Rightarrow> vocab \<Rightarrow> string list \<times> progress" where
  "check_achievements p vocab =
     (case check_loop (achievements_to_check p vocab) (achievements p) [] of
        (unlocked, new_achievements) \<Rightarrow> (new_achievements, p\<lparr>achievements := unlocked\<rparr>))"

section \<open>The priority score as the specification states it\<close>










section \<open>Concrete stores\<close>

text \<open>The entry of the unit tests of \<open>schedule_next_review\<close>: ease 2.5, interval 5, box 2.\<close>

definition test_entry :: entry where
  "test_entry =
     \<lparr>sentence = None, note_text = None, box = Some 2, times_reviewed = None,
      times_correct = None, ease = Some (5/2), history = None, last_reviewed = None,
      next_review = None, interval = Some 5\<rparr>"

definition stats0 :: stats where
  "stats0 = \<lparr>words_added = 2, words_removed = 0, quiz_attempts = 0, quiz_correct = 0\<rparr>"

definition fruit_vocab :: vocab where
  "fruit_vocab = [(''apple'', test_entry), (''banana'', test_entry)]"

definition progress0 :: progress where
  "progress0 = \<lparr>current_streak = 2, longest_streak = 2, last_study_date = Some 99,
     achievements = [''XP_100''], total_reviews = 120, studied_today = 4, xp = 510\<rparr>"

text \<open>Entries for the study plan: due at day 200, ease 2.5, empty history.\<close>

definition plan_entry :: "int \<Rightarrow> int \<Rightarrow> entry" where
  "plan_entry reviewed right =
     \<lparr>sentence = None, note_text = None, box = None, times_reviewed = Some reviewed,
      times_correct = Some right, ease = Some (5/2), history = Some [],
      last_reviewed = None, next_review = Some 200, interval = None\<rparr>"


definition tie_vocab :: vocab where
  "tie_vocab = [(''pear'', plan_entry 10 10), (''fig'', plan_entry 10 2),
                (''plum'', plan_entry 10 10)]"

section \<open>Lemmas on the dictionary and on rounding\<close>

lemma get_or_Some [simp]: "get_or (Some x) d = x"
  by (simp add: get_or_def)

lemma get_or_None [simp]: "get_or None d = d"
  by (simp add: get_or_def)

lemma map_of_dict_set_same: "map_of (dict_set vocab k v) k = Some v"
  by (induction vocab k v rule: dict_set.induct) auto

lemma map_of_dict_set_other: "k' \<noteq> k \<Longrightarrow> map_of (dict_set vocab k v) k' = map_of vocab k'"
  by (induction vocab k v rule: dict_set.induct) auto

lemma keys_dict_set:
  "map_of vocab k \<noteq> None \<Longrightarrow> map fst (dict_set vocab k v) = map fst vocab"
  by (induction vocab k v rule: dict_set.induct) auto

lemma py_round_cases:
  "py_round x = \<lfloor>x\<rfloor> \<or> py_round x = \<lfloor>x\<rfloor> + 1"
  by (simp add: py_round_def Let_def)


lemma py_round_upper: "of_int (py_round x) \<le> x + 1/2"
proof -
  have fl: "of_int \<lfloor>x\<rfloor> \<le> x" "x < of_int \<lfloor>x\<rfloor> + 1"
    by linarith+
  show ?thesis
  proof (cases "x - of_int \<lfloor>x\<rfloor> < 1/2")
    case True
    then have "py_round x = \<lfloor>x\<rfloor>" by (simp add: py_round_def Let_def)
    with fl show ?thesis by linarith
  next
    case False
    have "(of_int (py_round x) :: rat) \<le> of_int \<lfloor>x\<rfloor> + 1"
      using py_round_cases [of x] by auto
    with False fl show ?thesis by linarith
  qed
qed

section \<open>Evaluations and auxiliary bounds\<close>





lemma strip_example: "strip '' An apple a day. '' = ''An apple a day.''"
  by code_simp

lemma strip_empty: "strip '''' = ''''"
  by code_simp

lemma check_achievements_progress0:
  "check_achievements progress0 fruit_vocab =
     ([''Earned 500 XP'', ''100 reviews completed''],
      progress0\<lparr>achievements := [''XP_100'', ''XP_500'', ''Reviews_100'']\<rparr>)"
  by code_simp

lemma check_loop_filter:
  assumes "distinct (map fst tbl)"
  shows "check_loop tbl unlocked new_achievements =
     (unlocked @ map fst (filter (\<lambda>(i, c, m). c \<and> i \<notin> set unlocked) tbl),
      new_achievements @ map (\<lambda>(i, c, m). m) (filter (\<lambda>(i, c, m). c \<and> i \<notin> set unlocked) tbl))"
  using assms
proof (induction tbl unlocked new_achievements rule: check_loop.induct)
  case (1 unlocked new_achievements)
  then show ?case by simp
next
  case (2 achievement_id condition message rest unlocked new_achievements)
  have notin: "achievement_id \<notin> fst ` set rest" and d: "distinct (map fst rest)"
    using "2.prems" by auto
  show ?case
  proof (cases "condition \<and> achievement_id \<notin> set unlocked")
    case True
    have same: "filter (\<lambda>(i, c, m). c \<and> i \<notin> set (unlocked @ [achievement_id])) rest
                = filter (\<lambda>(i, c, m). c \<and> i \<notin> set unlocked) rest"
      using notin by (intro filter_cong) (auto simp: image_iff)
    from True "2.IH"(1) [OF True d] same show ?thesis by simp
  next
    case False
    from False "2.IH"(2) [OF False d] show ?thesis by auto
  qed
qed

lemma distinct_achievement_ids: "distinct (map fst (achievements_to_check p vocab))"
  by (simp add: achievements_to_check_def Let_def)











lemma tie_vocab_rev_plan:
  "build_study_plan 100 3 (rev tie_vocab) = Inr [''fig'', ''plum'', ''pear'']"
  by code_simp

lemma plum_pear: "(''pear'' :: string) < ''plum''"
  by code_simp






section \<open>Claims\<close>










text \<open>
  C9. For a stored word, \<open>edit_word\<close> succeeds and replaces the sentence and the note of
  that entry by the stripped arguments; box, ease, interval, last review, next review,
  history and the two counters of the entry are unchanged, every other entry is
  unchanged, and so is the order of the keys.
\<close>

theorem edit_word_frame:
  assumes "map_of vocab word = Some data"
  shows "\<exists>vocab' data'. edit_word word new_sentence new_note vocab = (True, vocab')
     \<and> map_of vocab' word = Some data'
     \<and> sentence data' = Some (strip new_sentence)
     \<and> note_text data' = Some (strip new_note)
     \<and> box data' = box data \<and> ease data' = ease data \<and> interval data' = interval data
     \<and> last_reviewed data' = last_reviewed data \<and> next_review data' = next_review data
     \<and> history data' = history data \<and> times_reviewed data' = times_reviewed data
     \<and> times_correct data' = times_correct data
     \<and> (\<forall>w. w \<noteq> word \<longrightarrow> map_of vocab' w = map_of vocab w)
     \<and> map fst vocab' = map fst vocab"
  using assms
  by (simp add: edit_word_def map_of_dict_set_same map_of_dict_set_other keys_dict_set)

theorem edit_word_frame_witness:
  "map_of fruit_vocab ''banana'' = Some test_entry
   \<and> (\<exists>vocab' data'. edit_word ''banana'' '' An apple a day. '' '''' fruit_vocab = (True, vocab')
     \<and> map_of vocab' ''banana'' = Some data'
     \<and> sentence data' = Some ''An apple a day.''
     \<and> note_text data' = Some ''''
     \<and> box data' = Some 2 \<and> ease data' = Some (5/2) \<and> interval data' = Some 5
     \<and> map_of vocab' ''apple'' = Some test_entry
     \<and> map fst vocab' = [''apple'', ''banana''])"
  using edit_word_frame [of fruit_vocab "''banana''" test_entry "'' An apple a day. ''" "''''"]
  by (simp add: fruit_vocab_def strip_example strip_empty edit_word_def) (simp add: test_entry_def)

text \<open>
  C4. \<open>remove_word\<close> compares only the first key of the dictionary. On the store
  \<open>apple, banana\<close>: removing \<open>banana\<close> reports success, deletes nothing and counts a
  removal; removing the absent \<open>cherry\<close> does the same; removing \<open>Apple\<close> deletes
  \<open>apple\<close> and reports failure.
\<close>

theorem remove_word_first_key_only:
  "remove_word ''banana'' fruit_vocab stats0
     = (True, fruit_vocab, stats0\<lparr>words_removed := 1\<rparr>)
   \<and> remove_word ''cherry'' fruit_vocab stats0
     = (True, fruit_vocab, stats0\<lparr>words_removed := 1\<rparr>)
   \<and> remove_word ''Apple'' fruit_vocab stats0
     = (False, [(''banana'', test_entry)], stats0)"
  by code_simp

text \<open>
  C5. \<open>update_streak\<close> as a state machine: when the last study date is today the
  state is unchanged; when it is yesterday the current streak grows by one; in every other
  case (no last date, or any other date) the current streak becomes 1. Whenever the last
  study date is not today, the longest streak becomes the maximum of its old value and the
  new current streak, the daily counter is reset and the last study date becomes today.
  Every call preserves \<open>current_streak \<le> longest_streak\<close>.
\<close>

theorem update_streak_transitions:
  "(last_study_date p = Some today \<longrightarrow> update_streak today p = p)
   \<and> (last_study_date p = Some (today - 1) \<longrightarrow>
        current_streak (update_streak today p) = current_streak p + 1)
   \<and> (last_study_date p \<noteq> Some today \<longrightarrow> last_study_date p \<noteq> Some (today - 1) \<longrightarrow>
        current_streak (update_streak today p) = 1)
   \<and> (last_study_date p \<noteq> Some today \<longrightarrow>
        longest_streak (update_streak today p)
          = max (longest_streak p) (current_streak (update_streak today p))
        \<and> studied_today (update_streak today p) = 0
        \<and> last_study_date (update_streak today p) = Some today)
   \<and> (current_streak p \<le> longest_streak p \<longrightarrow>
        current_streak (update_streak today p) \<le> longest_streak (update_streak today p))"
  by (cases "last_study_date p") (auto simp: update_streak_def Let_def)

theorem update_streak_transitions_witness:
  "last_study_date progress0 = Some (100 - 1)
   \<and> current_streak (update_streak 100 progress0) = current_streak progress0 + 1
   \<and> last_study_date progress0 \<noteq> Some 100
   \<and> longest_streak (update_streak 100 progress0) = 3
   \<and> last_study_date progress0 = Some 99
   \<and> update_streak 99 progress0 = progress0
   \<and> last_study_date progress0 \<noteq> Some 105 \<and> last_study_date progress0 \<noteq> Some (105 - 1)
   \<and> current_streak (update_streak 105 progress0) = 1
   \<and> current_streak progress0 \<le> longest_streak progress0
   \<and> current_streak (update_streak 105 progress0) \<le> longest_streak (update_streak 105 progress0)"
  using update_streak_transitions [of progress0 100] update_streak_transitions [of progress0 99]
    update_streak_transitions [of progress0 105]
  by (simp add: progress0_def)

text \<open>
  C8. \<open>check_achievements\<close> selects, in the order of the table, exactly the rows whose
  condition holds and whose identifier is not in the list of unlocked achievements at the
  start of the call. It returns the messages of these rows and appends their identifiers
  to the unlocked list, so a row that is already unlocked is never reported again.
\<close>

theorem check_achievements_new_in_table_order:
  "check_achievements p vocab =
     (map (\<lambda>(i, c, m). m)
        (filter (\<lambda>(i, c, m). c \<and> i \<notin> set (achievements p)) (achievements_to_check p vocab)),
      p\<lparr>achievements := achievements p
           @ map fst (filter (\<lambda>(i, c, m). c \<and> i \<notin> set (achievements p))
                        (achievements_to_check p vocab))\<rparr>)"
  by (simp add: check_achievements_def check_loop_filter [OF distinct_achievement_ids])

theorem check_achievements_new_in_table_order_witness:
  "check_achievements progress0 fruit_vocab =
     ([''Earned 500 XP'', ''100 reviews completed''],
      progress0\<lparr>achievements := [''XP_100'', ''XP_500'', ''Reviews_100'']\<rparr>)
   \<and> map (\<lambda>(i, c, m). m)
        (filter (\<lambda>(i, c, m). c \<and> i \<notin> set (achievements progress0))
           (achievements_to_check progress0 fruit_vocab))
      = [''Earned 500 XP'', ''100 reviews completed'']"
  using check_achievements_new_in_table_order [of progress0 fruit_vocab]
  by (simp add: check_achievements_progress0)





end
